theory Spec2Isabelle
  imports Main "HOL-Library.Word"
begin

section \<open>Ownership primitives of memory.h\<close>

text \<open>
  The header memory.h defines an exclusive pointer (MyUniquePtr, with an array
  specialisation), a control block with a strong and a weak counter, a shared pointer
  (MySharedPtr) and a weak pointer (MyWeakPtr). The embedding below keeps the fields and
  the order of the statements of every member function it translates.

  Raw pointers are addresses or \<open>nullptr\<close>; \<open>size_t\<close> is a 64-bit unsigned word, so
  \<open>strong_ref--\<close> at 0 wraps, as it does in the program. Control blocks live in an
  explicit store: \<open>new\<close> takes the next unused address, \<open>delete this\<close> removes the cell.
  Calling a member through \<open>nullptr\<close> or through the address of a removed cell is
  undefined behaviour in C++ and is an error value here. Every call of a deletion policy
  is appended to a log, together with the policy object that was called.
\<close>

subsection \<open>Values, errors and the store\<close>

type_synonym size_t = "64 word"
type_synonym addr = nat
type_synonym raw = "addr option"

datatype error = NullDeref | UseAfterFree | NoMatchingConstructor

definition bindE :: "error + 'a \<Rightarrow> ('a \<Rightarrow> error + 'b) \<Rightarrow> error + 'b" where
  "bindE m f = (case m of Inl e \<Rightarrow> Inl e | Inr x \<Rightarrow> f x)"

record 'd ControlBlock =
  strong_ref :: size_t
  weak_ref :: size_t
  cb_deleter :: 'd

record 'd state =
  heap :: "addr \<Rightarrow> 'd ControlBlock option"
  deleted :: "('d \<times> raw) list"
  brk :: addr

definition init_state :: "'d state" where
  "init_state = \<lparr>heap = (\<lambda>_. None), deleted = [], brk = 0\<rparr>"

subsection \<open>ControlBlock\<close>

text \<open>
  A member function of a control block returns the block after the call, or \<open>None\<close>
  when the call ended in \<open>delete this\<close>.
\<close>

definition ControlBlock_new :: "'d::default ControlBlock" where
  "ControlBlock_new = \<lparr>strong_ref = 1, weak_ref = 0, cb_deleter = default\<rparr>"


definition incrementStrongRef :: "'d ControlBlock \<Rightarrow> 'd ControlBlock option" where
  "incrementStrongRef b = Some (b\<lparr>strong_ref := strong_ref b + 1\<rparr>)"

definition decrementStrongRef :: "'d ControlBlock \<Rightarrow> 'd ControlBlock option" where
  "decrementStrongRef b =
     (let b' = b\<lparr>strong_ref := strong_ref b - 1\<rparr>
      in if strong_ref b' = 0 \<and> weak_ref b' = 0 then None else Some b')"

definition incrementWeakRef :: "'d ControlBlock \<Rightarrow> 'd ControlBlock option" where
  "incrementWeakRef b = Some (b\<lparr>weak_ref := weak_ref b + 1\<rparr>)"

definition decrementWeakRef :: "'d ControlBlock \<Rightarrow> 'd ControlBlock option" where
  "decrementWeakRef b =
     (let b' = b\<lparr>weak_ref := weak_ref b - 1\<rparr>
      in if strong_ref b' = 0 \<and> weak_ref b' = 0 then None else Some b')"

text \<open>\<open>c->m()\<close> for a mutating member \<open>m\<close>, and \<open>c->g()\<close> for an accessor \<open>g\<close>.\<close>

definition call_cb ::
  "raw \<Rightarrow> ('d ControlBlock \<Rightarrow> 'd ControlBlock option) \<Rightarrow> 'd state \<Rightarrow> error + 'd state" where
  "call_cb c m st =
     (case c of
        None \<Rightarrow> Inl NullDeref
      | Some a \<Rightarrow>
          (case heap st a of
             None \<Rightarrow> Inl UseAfterFree
           | Some b \<Rightarrow> Inr (st\<lparr>heap := (heap st)(a := m b)\<rparr>)))"

definition read_cb :: "raw \<Rightarrow> ('d ControlBlock \<Rightarrow> 'x) \<Rightarrow> 'd state \<Rightarrow> error + 'x" where
  "read_cb c g st =
     (case c of
        None \<Rightarrow> Inl NullDeref
      | Some a \<Rightarrow> (case heap st a of None \<Rightarrow> Inl UseAfterFree | Some b \<Rightarrow> Inr (g b)))"

text \<open>\<open>new ControlBlock<T, Deleter>()\<close>: the address and the store with the new cell.\<close>

definition new_ControlBlock :: "'d::default state \<Rightarrow> addr \<times> 'd state" where
  "new_ControlBlock st =
     (brk st, st\<lparr>heap := (heap st)(brk st \<mapsto> ControlBlock_new), brk := Suc (brk st)\<rparr>)"

subsection \<open>MySharedPtr\<close>

record MySharedPtr =
  sp_cb :: raw
  sp_ptr :: raw

definition MySharedPtr_default :: MySharedPtr where
  "MySharedPtr_default = \<lparr>sp_cb = None, sp_ptr = None\<rparr>"

definition MySharedPtr_raw :: "raw \<Rightarrow> 'd::default state \<Rightarrow> MySharedPtr \<times> 'd state" where
  "MySharedPtr_raw p st =
     (case new_ControlBlock st of (a, st') \<Rightarrow> (\<lparr>sp_cb = Some a, sp_ptr = p\<rparr>, st'))"

definition MySharedPtr_copy :: "MySharedPtr \<Rightarrow> 'd state \<Rightarrow> error + (MySharedPtr \<times> 'd state)" where
  "MySharedPtr_copy other st =
     bindE (call_cb (sp_cb other) incrementStrongRef st)
       (\<lambda>st'. Inr (\<lparr>sp_cb = sp_cb other, sp_ptr = sp_ptr other\<rparr>, st'))"

definition MySharedPtr_move :: "MySharedPtr \<Rightarrow> MySharedPtr \<times> MySharedPtr" where
  "MySharedPtr_move other =
     (\<lparr>sp_cb = sp_cb other, sp_ptr = sp_ptr other\<rparr>, other\<lparr>sp_ptr := None, sp_cb := None\<rparr>)"

definition get :: "MySharedPtr \<Rightarrow> raw" where
  "get s = sp_ptr s"

definition getCB :: "MySharedPtr \<Rightarrow> raw" where
  "getCB s = sp_cb s"

definition use_count :: "MySharedPtr \<Rightarrow> 'd state \<Rightarrow> error + size_t" where
  "use_count s st = (if sp_cb s \<noteq> None then read_cb (sp_cb s) strong_ref st else Inr 0)"

definition owner_before :: "MySharedPtr \<Rightarrow> MySharedPtr \<Rightarrow> 'd state \<Rightarrow> error + bool" where
  "owner_before this other st =
     bindE (read_cb (sp_cb this) strong_ref st) (\<lambda>m.
     bindE (read_cb (sp_cb other) strong_ref st) (\<lambda>n.
       Inr (if m < n then True else False)))"

definition unique :: "MySharedPtr \<Rightarrow> 'd state \<Rightarrow> error + bool" where
  "unique s st = bindE (read_cb (sp_cb s) strong_ref st) (\<lambda>n. Inr (if n = 1 then True else False))"

text \<open>
  \<open>reset\<close> ignores its argument and assigns to no field, so the pointer it returns is
  the pointer it was called on.
\<close>

definition reset :: "MySharedPtr \<Rightarrow> 'd state \<Rightarrow> error + (MySharedPtr \<times> 'd state)" where
  "reset s st =
     (if sp_cb s \<noteq> None then
        bindE (use_count s st) (\<lambda>n.
        bindE (if n - 1 = 0 \<or> sp_cb s = None
               then bindE (read_cb (sp_cb s) cb_deleter st)
                      (\<lambda>d. Inr (st\<lparr>deleted := deleted st @ [(d, sp_ptr s)]\<rparr>))
               else Inr st) (\<lambda>st1.
        bindE (call_cb (sp_cb s) decrementStrongRef st1) (\<lambda>st2.
          Inr (s, st2))))
      else Inr (s, st))"

definition MySharedPtr_destroy :: "MySharedPtr \<Rightarrow> 'd state \<Rightarrow> error + 'd state" where
  "MySharedPtr_destroy s st = bindE (reset s st) (\<lambda>(s', st'). Inr st')"

definition shared_bool :: "MySharedPtr \<Rightarrow> bool" where
  "shared_bool s = (if get s \<noteq> None then True else False)"

subsection \<open>MyWeakPtr\<close>

record MyWeakPtr =
  wp_ptr :: raw
  wp_cb :: raw

definition MyWeakPtr_default :: MyWeakPtr where
  "MyWeakPtr_default = \<lparr>wp_ptr = None, wp_cb = None\<rparr>"

definition MyWeakPtr_shared :: "MySharedPtr \<Rightarrow> 'd state \<Rightarrow> error + (MyWeakPtr \<times> 'd state)" where
  "MyWeakPtr_shared s st =
     bindE (call_cb (getCB s) incrementWeakRef st)
       (\<lambda>st'. Inr (\<lparr>wp_ptr = get s, wp_cb = getCB s\<rparr>, st'))"

definition MyWeakPtr_copy :: "MyWeakPtr \<Rightarrow> 'd state \<Rightarrow> error + (MyWeakPtr \<times> 'd state)" where
  "MyWeakPtr_copy other st =
     bindE (call_cb (wp_cb other) incrementWeakRef st)
       (\<lambda>st'. Inr (\<lparr>wp_ptr = wp_ptr other, wp_cb = wp_cb other\<rparr>, st'))"

text \<open>
  Copy assignment \<open>this = other\<close>. Objects are values here, so the test
  \<open>this != &other\<close> is the flag \<open>same\<close>: true when both names denote one object.
\<close>

definition MyWeakPtr_assign ::
  "bool \<Rightarrow> MyWeakPtr \<Rightarrow> MyWeakPtr \<Rightarrow> 'd state \<Rightarrow> error + (MyWeakPtr \<times> 'd state)" where
  "MyWeakPtr_assign same this other st =
     (if \<not> same then
        bindE (call_cb (wp_cb this) incrementWeakRef st)
          (\<lambda>st'. Inr (this\<lparr>wp_ptr := wp_ptr other, wp_cb := wp_cb other\<rparr>, st'))
      else Inr (this, st))"

definition expired :: "MyWeakPtr \<Rightarrow> 'd state \<Rightarrow> error + bool" where
  "expired w st = read_cb (wp_cb w) (\<lambda>b. strong_ref b = 0) st"

definition weak_bool :: "MyWeakPtr \<Rightarrow> 'd state \<Rightarrow> error + bool" where
  "weak_bool w st = bindE (expired w st) (\<lambda>e. Inr (\<not> e))"

definition weak_use_count :: "MyWeakPtr \<Rightarrow> 'd state \<Rightarrow> error + size_t" where
  "weak_use_count w st = (if wp_cb w \<noteq> None then read_cb (wp_cb w) strong_ref st else Inr 0)"

definition weak_reset :: "MyWeakPtr \<Rightarrow> 'd state \<Rightarrow> error + (MyWeakPtr \<times> 'd state)" where
  "weak_reset w st =
     (let w1 = w\<lparr>wp_ptr := None\<rparr>
      in bindE (call_cb (wp_cb w1) decrementWeakRef st)
           (\<lambda>st'. Inr (w1\<lparr>wp_cb := None\<rparr>, st')))"

definition MyWeakPtr_destroy :: "MyWeakPtr \<Rightarrow> 'd state \<Rightarrow> error + 'd state" where
  "MyWeakPtr_destroy w st = bindE (weak_reset w st) (\<lambda>(w', st'). Inr st')"

text \<open>
  \<open>lock\<close> is \<open>expired() ? MySharedPtr<T>() : MySharedPtr<T>(*this)\<close>. The third
  operand asks for a constructor of MySharedPtr that takes a MyWeakPtr. The class declares
  five constructors (default, from a raw pointer, from a raw pointer and a policy, copy,
  move), none of which accepts a MyWeakPtr, and the only conversion a MyWeakPtr offers is
  to \<open>bool\<close>. Both operands of the conditional are checked when \<open>lock\<close> is
  instantiated, so the function has no meaning for any weak pointer, expired or not: every
  call is the error below, and neither \<open>expired\<close> nor a constructor runs.
\<close>

definition lock :: "MyWeakPtr \<Rightarrow> 'd state \<Rightarrow> error + (MySharedPtr \<times> 'd state)" where
  "lock w st = Inl NoMatchingConstructor"

subsection \<open>MyUniquePtr\<close>

text \<open>
  The exclusive pointer touches no control block: its member functions act on the
  object and on the log of policy calls. The array specialisation repeats the text of
  the scalar class for the members below, so one record serves both.
\<close>

record 'd MyUniquePtr =
  ptr :: raw
  deleter :: 'd

definition MyUniquePtr_raw :: "raw \<Rightarrow> 'd::default MyUniquePtr" where
  "MyUniquePtr_raw p = \<lparr>ptr = p, deleter = default\<rparr>"

definition MyUniquePtr_policy :: "raw \<Rightarrow> 'd \<Rightarrow> 'd MyUniquePtr" where
  "MyUniquePtr_policy p d = \<lparr>ptr = p, deleter = d\<rparr>"

text \<open>Move construction: the new object and the source after the move.\<close>

definition MyUniquePtr_move :: "'d MyUniquePtr \<Rightarrow> 'd::default MyUniquePtr \<times> 'd MyUniquePtr" where
  "MyUniquePtr_move other = (\<lparr>ptr = ptr other, deleter = default\<rparr>, other\<lparr>ptr := None\<rparr>)"

definition MyUniquePtr_array_move ::
  "'d MyUniquePtr \<Rightarrow> 'd::default MyUniquePtr \<times> 'd MyUniquePtr" where
  "MyUniquePtr_array_move other = (\<lparr>ptr = ptr other, deleter = default\<rparr>, other\<lparr>ptr := None\<rparr>)"

definition release :: "'d MyUniquePtr \<Rightarrow> raw \<times> 'd MyUniquePtr" where
  "release u = (let releasedPtr = ptr u in (releasedPtr, u\<lparr>ptr := None\<rparr>))"

definition unique_reset ::
  "raw \<Rightarrow> 'd MyUniquePtr \<Rightarrow> ('d \<times> raw) list \<Rightarrow> 'd MyUniquePtr \<times> ('d \<times> raw) list" where
  "unique_reset newPtr u log =
     (if ptr u \<noteq> newPtr then (u\<lparr>ptr := newPtr\<rparr>, log @ [(deleter u, ptr u)]) else (u, log))"

definition MyUniquePtr_destroy :: "'d MyUniquePtr \<Rightarrow> ('d \<times> raw) list \<Rightarrow> ('d \<times> raw) list" where
  "MyUniquePtr_destroy u log = snd (unique_reset None u log)"

definition unique_bool :: "'d MyUniquePtr \<Rightarrow> bool" where
  "unique_bool u = (ptr u \<noteq> None)"

subsection \<open>A policy type for concrete runs\<close>

text \<open>
  \<open>default_delete\<close> has no data member, so all its objects are equal. A policy class
  with a data member tells a default-constructed policy from one the caller supplied:
  here the member is a number that the default constructor sets to 0.
\<close>

datatype tagged_delete = tagged_delete nat

instantiation tagged_delete :: default
begin

definition default_tagged_delete :: tagged_delete where
  "default_tagged_delete = tagged_delete 0"

instance ..

end

subsection \<open>Scripts of calls on one exclusive pointer\<close>

text \<open>
  A script is a sequence of the calls \<open>reset()\<close> and \<open>release()\<close> made on one
  exclusive pointer, run from left to right on the object and the log.
\<close>

datatype unique_call = Reset | Release

fun unique_run ::
  "unique_call list \<Rightarrow> 'd MyUniquePtr \<Rightarrow> ('d \<times> raw) list \<Rightarrow> 'd MyUniquePtr \<times> ('d \<times> raw) list" where
  "unique_run [] u log = (u, log)"
| "unique_run (Reset # cs) u log = (case unique_reset None u log of (u', log') \<Rightarrow> unique_run cs u' log')"
| "unique_run (Release # cs) u log = unique_run cs (snd (release u)) log"

subsection \<open>Copies and destructions of one shared pointer\<close>

text \<open>
  \<open>make_copies n s\<close> copy-constructs \<open>n\<close> shared pointers from \<open>s\<close>, and
  \<open>destroy_all\<close> runs the destructor of every pointer of a list, from left to right.
\<close>

fun make_copies :: "nat \<Rightarrow> MySharedPtr \<Rightarrow> 'd state \<Rightarrow> error + (MySharedPtr list \<times> 'd state)" where
  "make_copies 0 s st = Inr ([], st)"
| "make_copies (Suc n) s st =
     bindE (MySharedPtr_copy s st) (\<lambda>(c, st1).
     bindE (make_copies n s st1) (\<lambda>(cs, st2). Inr (c # cs, st2)))"

fun destroy_all :: "MySharedPtr list \<Rightarrow> 'd state \<Rightarrow> error + 'd state" where
  "destroy_all [] st = Inr st"
| "destroy_all (s # ss) st = bindE (MySharedPtr_destroy s st) (destroy_all ss)"

subsection \<open>Scripts of constructor and destructor calls\<close>










section \<open>Properties\<close>

lemma bindE_simps [simp]:
  "bindE (Inl e) f = Inl e"
  "bindE (Inr x) f = f x"
  by (simp_all add: bindE_def)

subsection \<open>The exclusive pointer\<close>

lemma unique_run_empty:
  "ptr u = None \<Longrightarrow> unique_run cs u log = (u, log)"
  by (induction cs u log rule: unique_run.induct)
     (simp_all add: unique_reset_def release_def)

text \<open>
  C7. A resource wrapped by an exclusive pointer meets its deletion policy exactly once,
  at the first \<open>reset()\<close> or else at destruction; when \<open>release()\<close> is called first,
  the policy is never called, whatever follows. The statement is over every script of
  \<open>reset()\<close> and \<open>release()\<close> calls: first the object and the log after the script,
  then the log after the script and the destructor.
\<close>

theorem exclusive_policy_fires_once:
  fixes d :: 'd
  shows "unique_run cs (MyUniquePtr_policy (Some a) d) [] =
     (case cs of
        [] \<Rightarrow> (MyUniquePtr_policy (Some a) d, [])
      | Reset # _ \<Rightarrow> (MyUniquePtr_policy None d, [(d, Some a)])
      | Release # _ \<Rightarrow> (MyUniquePtr_policy None d, []))
   \<and> (case unique_run cs (MyUniquePtr_policy (Some a) d) [] of (u, log) \<Rightarrow> MyUniquePtr_destroy u log) =
     (case cs of
        [] \<Rightarrow> [(d, Some a)]
      | Reset # _ \<Rightarrow> [(d, Some a)]
      | Release # _ \<Rightarrow> [])"
proof (cases cs)
  case Nil
  then show ?thesis
    by (simp add: MyUniquePtr_destroy_def unique_reset_def MyUniquePtr_policy_def)
next
  case (Cons c cs')
  have empty: "unique_run cs' (MyUniquePtr_policy None d) log = (MyUniquePtr_policy None d, log)"
    for log :: "('d \<times> raw) list"
    by (rule unique_run_empty) (simp add: MyUniquePtr_policy_def)
  have gone: "MyUniquePtr_destroy (MyUniquePtr_policy None d) log = log"
    for log :: "('d \<times> raw) list"
    by (simp add: MyUniquePtr_destroy_def unique_reset_def MyUniquePtr_policy_def)
  show ?thesis
  proof (cases c)
    case Reset
    have "unique_reset None (MyUniquePtr_policy (Some a) d) [] = (MyUniquePtr_policy None d, [(d, Some a)])"
      by (simp add: unique_reset_def MyUniquePtr_policy_def)
    then show ?thesis
      by (simp add: Cons Reset empty gone)
  next
    case Release
    have "snd (release (MyUniquePtr_policy (Some a) d)) = MyUniquePtr_policy None d"
      by (simp add: release_def MyUniquePtr_policy_def)
    then show ?thesis
      by (simp add: Cons Release empty gone)
  qed
qed

theorem exclusive_policy_fires_once_witness:
  "(case unique_run [Release, Reset] (MyUniquePtr_raw (Some 4)) [] of (u, log) \<Rightarrow> MyUniquePtr_destroy u log)
     = ([] :: (tagged_delete \<times> raw) list)
   \<and> (case unique_run [Reset, Release, Reset] (MyUniquePtr_raw (Some 4)) [] of (u, log) \<Rightarrow> MyUniquePtr_destroy u log)
     = [(tagged_delete 0, Some 4)]
   \<and> (case unique_run [] (MyUniquePtr_raw (Some 4)) [] of (u, log) \<Rightarrow> MyUniquePtr_destroy u log)
     = [(tagged_delete 0, Some 4)]"
  using exclusive_policy_fires_once [of "[Release, Reset]" 4 "tagged_delete 0"]
    exclusive_policy_fires_once [of "[Reset, Release, Reset]" 4 "tagged_delete 0"]
    exclusive_policy_fires_once [of "[]" 4 "tagged_delete 0"]
  by (simp add: default_tagged_delete_def MyUniquePtr_destroy_def unique_reset_def
      MyUniquePtr_raw_def MyUniquePtr_policy_def release_def)

text \<open>
  C10. Move construction copies the raw pointer only. The new object's policy is
  default-constructed, the source keeps its own policy and loses the pointer, so the
  resource is later released by the default policy and not by the one the source
  carried. The scalar class and the array specialisation agree.
\<close>

theorem move_construct_default_policy:
  fixes u :: "'d::default MyUniquePtr"
  shows "MyUniquePtr_move u = (\<lparr>ptr = ptr u, deleter = default\<rparr>, \<lparr>ptr = None, deleter = deleter u\<rparr>)
   \<and> MyUniquePtr_array_move u = (\<lparr>ptr = ptr u, deleter = default\<rparr>, \<lparr>ptr = None, deleter = deleter u\<rparr>)
   \<and> MyUniquePtr_destroy (fst (MyUniquePtr_move u)) log
       = (if ptr u \<noteq> None then log @ [(default, ptr u)] else log)
   \<and> MyUniquePtr_destroy (fst (MyUniquePtr_array_move u)) log
       = (if ptr u \<noteq> None then log @ [(default, ptr u)] else log)
   \<and> MyUniquePtr_destroy (snd (MyUniquePtr_move u)) log = log
   \<and> MyUniquePtr_destroy (snd (MyUniquePtr_array_move u)) log = log"
  by (simp add: MyUniquePtr_move_def MyUniquePtr_array_move_def MyUniquePtr_destroy_def
      unique_reset_def)

theorem move_construct_default_policy_witness:
  "MyUniquePtr_move (MyUniquePtr_policy (Some 3) (tagged_delete 5))
     = (MyUniquePtr_policy (Some 3) (tagged_delete 0), MyUniquePtr_policy None (tagged_delete 5))
   \<and> MyUniquePtr_destroy (fst (MyUniquePtr_move (MyUniquePtr_policy (Some 3) (tagged_delete 5)))) []
       = [(tagged_delete 0, Some 3)]
   \<and> MyUniquePtr_destroy (MyUniquePtr_policy (Some 3) (tagged_delete 5)) []
       = [(tagged_delete 5, Some 3)]"
  using move_construct_default_policy [of "MyUniquePtr_policy (Some 3) (tagged_delete 5)" "[]"]
  by (simp add: default_tagged_delete_def MyUniquePtr_destroy_def unique_reset_def
      MyUniquePtr_policy_def)

subsection \<open>The shared pointer\<close>

text \<open>
  C8 (as stated, refuted). A shared pointer constructed from \<open>nullptr\<close> converts to
  false, yet its use count is 1 and not 0. And in the run \<open>a\<close> on resource 7,
  \<open>b\<close> copied from \<open>a\<close>, \<open>a.reset()\<close>, \<open>b.reset()\<close>, the resource is released
  and \<open>b\<close> keeps the address of the freed block: \<open>use_count\<close> of \<open>b\<close> is then
  neither 0 nor a strong count, it reads a block that is gone.
\<close>

theorem use_count_counterexample:
  "(case MySharedPtr_raw None (init_state :: tagged_delete state) of (n, st1) \<Rightarrow>
    case MySharedPtr_raw (Some 7) st1 of (a, st2) \<Rightarrow>
      bindE (MySharedPtr_copy a st2) (\<lambda>(b, st3).
      bindE (reset a st3) (\<lambda>(a', st4).
      bindE (reset b st4) (\<lambda>(b', st5).
        Inr (shared_bool n, use_count n st1, use_count b' st4, deleted st5, sp_cb b',
             use_count b' st5)))))
   = Inr (False, Inr 1, Inr 1, [(tagged_delete 0, Some 7)], Some 1, Inl UseAfterFree)"
  by (simp add: MySharedPtr_raw_def new_ControlBlock_def ControlBlock_new_def init_state_def
      MySharedPtr_copy_def call_cb_def incrementStrongRef_def reset_def use_count_def
      read_cb_def decrementStrongRef_def shared_bool_def get_def default_tagged_delete_def)

text \<open>
  C8 (amended). \<open>use_count\<close> is 0 for a pointer that holds no control block, such as
  a default-constructed or a moved-from pointer, and the strong count of the block for a
  pointer whose block is in the store. Construction from a raw pointer always gives the
  pointer a new block, also from \<open>nullptr\<close>: the use count is then 1, and the
  conversion to \<open>bool\<close> tells only whether the raw pointer is null.
\<close>

theorem use_count_by_control_block:
  fixes st :: "'d state" and fresh :: "'e::default state"
  shows "(sp_cb s = None \<longrightarrow> use_count s st = Inr 0)
     \<and> (\<forall>a b. sp_cb s = Some a \<and> heap st a = Some b \<longrightarrow> use_count s st = Inr (strong_ref b))
     \<and> use_count MySharedPtr_default st = Inr 0
     \<and> use_count (snd (MySharedPtr_move s)) st = Inr 0
     \<and> use_count (fst (MySharedPtr_raw p fresh)) (snd (MySharedPtr_raw p fresh)) = Inr 1
     \<and> shared_bool (fst (MySharedPtr_raw p fresh)) = (p \<noteq> None)"
  by (simp add: use_count_def read_cb_def MySharedPtr_default_def MySharedPtr_move_def
      MySharedPtr_raw_def new_ControlBlock_def ControlBlock_new_def shared_bool_def get_def)

theorem use_count_by_control_block_witness:
  "use_count \<lparr>sp_cb = Some 0, sp_ptr = Some 7\<rparr>
      \<lparr>heap = (\<lambda>_. None)(0 \<mapsto> \<lparr>strong_ref = 3, weak_ref = 0, cb_deleter = tagged_delete 0\<rparr>),
       deleted = [], brk = 1\<rparr> = Inr 3
   \<and> use_count \<lparr>sp_cb = None, sp_ptr = None\<rparr>
      \<lparr>heap = (\<lambda>_. None)(0 \<mapsto> \<lparr>strong_ref = 3, weak_ref = 0, cb_deleter = tagged_delete 0\<rparr>),
       deleted = [], brk = 1\<rparr> = Inr 0
   \<and> use_count (fst (MySharedPtr_raw None (init_state :: tagged_delete state)))
        (snd (MySharedPtr_raw None (init_state :: tagged_delete state))) = Inr 1
   \<and> \<not> shared_bool (fst (MySharedPtr_raw None (init_state :: tagged_delete state)))"
  using use_count_by_control_block
      [where s = "\<lparr>sp_cb = Some 0, sp_ptr = Some 7\<rparr>"
        and st = "\<lparr>heap = (\<lambda>_. None)(0 \<mapsto> \<lparr>strong_ref = 3, weak_ref = 0, cb_deleter = tagged_delete 0\<rparr>),
                   deleted = [], brk = 1\<rparr>"
        and p = None and fresh = "init_state :: tagged_delete state"]
    use_count_by_control_block
      [where s = "\<lparr>sp_cb = None, sp_ptr = None\<rparr>"
        and st = "\<lparr>heap = (\<lambda>_. None)(0 \<mapsto> \<lparr>strong_ref = 3, weak_ref = 0, cb_deleter = tagged_delete 0\<rparr>),
                   deleted = [], brk = 1\<rparr>"
        and p = None and fresh = "init_state :: tagged_delete state"]
  by simp

lemma reset_empty: "sp_cb s = None \<Longrightarrow> reset s st = Inr (s, st)"
  by (simp add: reset_def)

lemma reset_live:
  assumes "sp_cb s = Some a" and "heap st a = Some b"
  shows "reset s st =
     Inr (s, st\<lparr>deleted := (if strong_ref b = 1 then deleted st @ [(cb_deleter b, sp_ptr s)]
                            else deleted st),
                heap := (heap st)(a := decrementStrongRef b)\<rparr>)"
  using assms by (simp add: reset_def use_count_def read_cb_def call_cb_def)

lemma copy_live:
  assumes "sp_cb s = Some a" and "heap st a = Some b"
  shows "MySharedPtr_copy s st =
     Inr (s, st\<lparr>heap := (heap st)(a \<mapsto> b\<lparr>strong_ref := strong_ref b + 1\<rparr>)\<rparr>)"
  using assms by (simp add: MySharedPtr_copy_def call_cb_def incrementStrongRef_def)

lemma make_copies_live:
  assumes "sp_cb s = Some a" and "heap st a = Some b"
  shows "make_copies n s st =
     Inr (replicate n s, st\<lparr>heap := (heap st)(a \<mapsto> b\<lparr>strong_ref := strong_ref b + of_nat n\<rparr>)\<rparr>)"
  using assms
proof (induction n arbitrary: st b)
  case 0
  then show ?case by (simp add: fun_upd_idem)
next
  case (Suc n)
  let ?b1 = "b\<lparr>strong_ref := strong_ref b + 1\<rparr>"
  let ?st1 = "st\<lparr>heap := (heap st)(a \<mapsto> ?b1)\<rparr>"
  have e1: "MySharedPtr_copy s st = Inr (s, ?st1)"
    by (rule copy_live [OF Suc.prems])
  have "make_copies n s ?st1 =
     Inr (replicate n s, ?st1\<lparr>heap := (heap ?st1)(a \<mapsto> ?b1\<lparr>strong_ref := strong_ref ?b1 + of_nat n\<rparr>)\<rparr>)"
    by (rule Suc.IH) (simp_all add: Suc.prems)
  then have e2: "make_copies n s ?st1 =
     Inr (replicate n s, st\<lparr>heap := (heap st)(a \<mapsto> b\<lparr>strong_ref := strong_ref b + of_nat (Suc n)\<rparr>)\<rparr>)"
    by (simp add: add.assoc)
  show ?case
    by (simp only: make_copies.simps e1 e2 bindE_simps prod.case replicate_Suc)
qed

lemma word_of_nat_pred:
  assumes "0 < m"
  shows "(of_nat m :: size_t) - 1 = of_nat (m - 1)"
  using assms by (cases m) simp_all

lemma word_of_nat_eq_1_iff:
  assumes "m < 2 ^ 64"
  shows "((of_nat m :: size_t) = 1) = (m = 1)"
proof
  assume "(of_nat m :: size_t) = 1"
  then have "unat (1 :: size_t) = m"
    by (rule of_nat_inverse) (use assms in simp)
  then show "m = 1" by simp
qed simp

lemma word_of_nat_neq_0:
  assumes "0 < m" and "m < 2 ^ 64"
  shows "(of_nat m :: size_t) \<noteq> 0"
  by (rule of_nat_neq_0) (use assms in simp_all)

lemma decrement_not_last:
  assumes "strong_ref b = of_nat m" and "1 < m" and "m < 2 ^ 64"
  shows "decrementStrongRef b = Some (b\<lparr>strong_ref := of_nat (m - 1)\<rparr>)"
proof -
  have "(of_nat (m - 1) :: size_t) \<noteq> 0"
    by (rule word_of_nat_neq_0) (use assms in simp_all)
  moreover have "strong_ref b - 1 = of_nat (m - 1)"
    using assms by (simp only: word_of_nat_pred)
  ultimately show ?thesis
    by (simp add: decrementStrongRef_def Let_def)
qed


lemma destroy_not_last:
  assumes "sp_cb s = Some a" and "heap st a = Some b"
    and "strong_ref b = of_nat m" and "1 < m" and "m < 2 ^ 64"
  shows "MySharedPtr_destroy s st =
     Inr (st\<lparr>heap := (heap st)(a \<mapsto> b\<lparr>strong_ref := of_nat (m - 1)\<rparr>)\<rparr>)"
proof -
  have "strong_ref b \<noteq> 1"
    using assms(3-5) by (simp add: word_of_nat_eq_1_iff)
  then show ?thesis
    by (simp add: MySharedPtr_destroy_def reset_live [OF assms(1,2)]
        decrement_not_last [OF assms(3-5)])
qed

lemma destroy_last:
  assumes "sp_cb s = Some a" and "heap st a = Some b" and "strong_ref b = 1"
  shows "MySharedPtr_destroy s st =
     Inr (st\<lparr>deleted := deleted st @ [(cb_deleter b, sp_ptr s)],
            heap := (heap st)(a := if weak_ref b = 0 then None else Some (b\<lparr>strong_ref := 0\<rparr>))\<rparr>)"
  using assms(3)
  by (simp add: MySharedPtr_destroy_def reset_live [OF assms(1,2)] decrementStrongRef_def Let_def)

lemma destroy_all_not_last:
  assumes "sp_cb s = Some a" and "heap st a = Some b"
    and "strong_ref b = of_nat m" and "k < m" and "m < 2 ^ 64"
  shows "destroy_all (replicate k s) st =
     Inr (st\<lparr>heap := (heap st)(a \<mapsto> b\<lparr>strong_ref := of_nat (m - k)\<rparr>)\<rparr>)"
  using assms(2-5)
proof (induction k arbitrary: st b m)
  case 0
  then show ?case by (simp add: fun_upd_idem)
next
  case (Suc k)
  let ?b1 = "b\<lparr>strong_ref := of_nat (m - 1)\<rparr>"
  let ?st1 = "st\<lparr>heap := (heap st)(a \<mapsto> ?b1)\<rparr>"
  have e1: "MySharedPtr_destroy s st = Inr ?st1"
    by (rule destroy_not_last [OF assms(1) Suc.prems(1,2)]) (use Suc.prems in simp_all)
  have "destroy_all (replicate k s) ?st1 =
     Inr (?st1\<lparr>heap := (heap ?st1)(a \<mapsto> ?b1\<lparr>strong_ref := of_nat (m - 1 - k)\<rparr>)\<rparr>)"
    by (rule Suc.IH) (use Suc.prems in simp_all)
  then have e2: "destroy_all (replicate k s) ?st1 =
     Inr (st\<lparr>heap := (heap st)(a \<mapsto> b\<lparr>strong_ref := of_nat (m - Suc k)\<rparr>)\<rparr>)"
    by simp
  show ?case
    by (simp only: replicate_Suc destroy_all.simps e1 e2 bindE_simps)
qed


lemma destroy_all_append:
  "destroy_all (xs @ ys) st = bindE (destroy_all xs st) (destroy_all ys)"
proof (induction xs arbitrary: st)
  case Nil
  show ?case by simp
next
  case (Cons x xs)
  show ?case
    by (cases "MySharedPtr_destroy x st") (simp_all add: Cons.IH)
qed

text \<open>
  C2. A shared pointer is constructed on a resource and copied \<open>n\<close> times, where the
  \<open>n + 1\<close> owners fit the counter. While the \<open>n + 1\<close> pointers are destroyed,
  every pointer still standing sees the use count drop by one per destruction, and the
  policy is not called during the first \<open>n\<close> destructions. The last destruction calls
  the policy once, on the resource, and frees the control block.
\<close>

theorem copies_then_destructions:
  fixes st0 :: "'d::default state"
  assumes n: "Suc n < 2 ^ 64"
    and new: "MySharedPtr_raw p st0 = (s, st1)"
  shows "\<exists>cs st2. make_copies n s st1 = Inr (cs, st2) \<and> length cs = n
     \<and> (\<forall>k\<le>n. \<exists>st3. destroy_all (take k (s # cs)) st2 = Inr st3
            \<and> deleted st3 = deleted st0
            \<and> (\<forall>c \<in> set (drop k (s # cs)). use_count c st3 = Inr (of_nat (Suc n - k))))
     \<and> (\<exists>st4. destroy_all (s # cs) st2 = Inr st4
            \<and> deleted st4 = deleted st0 @ [(default, p)]
            \<and> heap st4 (brk st0) = None)"
proof -
  define a where "a = brk st0"
  define b2 :: "'d ControlBlock" where "b2 = ControlBlock_new\<lparr>strong_ref := of_nat (Suc n)\<rparr>"
  define st2 where "st2 = st1\<lparr>heap := (heap st1)(a \<mapsto> b2)\<rparr>"
  have s: "sp_cb s = Some a" "sp_ptr s = p"
    and st1: "heap st1 a = Some ControlBlock_new" "deleted st1 = deleted st0"
    using new by (auto simp add: MySharedPtr_raw_def new_ControlBlock_def a_def)
  have copies: "make_copies n s st1 = Inr (replicate n s, st2)"
    unfolding st2_def b2_def
    by (simp add: make_copies_live [OF s(1) st1(1)] ControlBlock_new_def)
  have st2: "heap st2 a = Some b2" "deleted st2 = deleted st0"
    by (simp_all add: st2_def st1)
  have b2: "strong_ref b2 = of_nat (Suc n)" "weak_ref b2 = 0" "cb_deleter b2 = default"
    by (simp_all add: b2_def ControlBlock_new_def)
  have before: "destroy_all (replicate k s) st2 =
      Inr (st2\<lparr>heap := (heap st2)(a \<mapsto> b2\<lparr>strong_ref := of_nat (Suc n - k)\<rparr>)\<rparr>)"
    if "k \<le> n" for k
    by (rule destroy_all_not_last [OF s(1) st2(1) b2(1)]) (use that n in simp_all)
  have part: "\<exists>st3. destroy_all (take k (s # replicate n s)) st2 = Inr st3
        \<and> deleted st3 = deleted st0
        \<and> (\<forall>c \<in> set (drop k (s # replicate n s)). use_count c st3 = Inr (of_nat (Suc n - k)))"
    if k: "k \<le> n" for k
  proof -
    let ?st3 = "st2\<lparr>heap := (heap st2)(a \<mapsto> b2\<lparr>strong_ref := of_nat (Suc n - k)\<rparr>)\<rparr>"
    have "take k (s # replicate n s) = replicate k s"
      using k by (simp flip: replicate_Suc add: min_def)
    then have "destroy_all (take k (s # replicate n s)) st2 = Inr ?st3"
      by (simp only: before [OF k])
    moreover have "deleted ?st3 = deleted st0"
      by (simp add: st2)
    moreover have "use_count c ?st3 = Inr (of_nat (Suc n - k))"
      if "c \<in> set (drop k (s # replicate n s))" for c
    proof -
      have "c \<in> set (s # replicate n s)"
        using that by (rule in_set_dropD)
      then have "c = s" by auto
      then show ?thesis
        by (simp add: use_count_def read_cb_def s)
    qed
    ultimately show ?thesis by blast
  qed
  have final: "\<exists>st4. destroy_all (s # replicate n s) st2 = Inr st4
        \<and> deleted st4 = deleted st0 @ [(default, p)]
        \<and> heap st4 (brk st0) = None"
  proof -
    let ?b3 = "b2\<lparr>strong_ref := 1\<rparr>"
    let ?st3 = "st2\<lparr>heap := (heap st2)(a \<mapsto> ?b3)\<rparr>"
    have "destroy_all (replicate n s) st2 = Inr ?st3"
      using before [of n] by simp
    moreover have "MySharedPtr_destroy s ?st3 =
        Inr (?st3\<lparr>deleted := deleted ?st3 @ [(cb_deleter ?b3, sp_ptr s)],
               heap := (heap ?st3)(a := if weak_ref ?b3 = 0 then None else Some (?b3\<lparr>strong_ref := 0\<rparr>))\<rparr>)"
      by (rule destroy_last [OF s(1)]) simp_all
    moreover have "s # replicate n s = replicate n s @ [s]"
      by (simp flip: replicate_Suc add: replicate_append_same)
    ultimately have "destroy_all (s # replicate n s) st2 =
        Inr (?st3\<lparr>deleted := deleted ?st3 @ [(cb_deleter ?b3, sp_ptr s)],
               heap := (heap ?st3)(a := if weak_ref ?b3 = 0 then None else Some (?b3\<lparr>strong_ref := 0\<rparr>))\<rparr>)"
      by (simp only: destroy_all_append bindE_simps destroy_all.simps)
    then show ?thesis
      by (simp add: b2 s st2 a_def)
  qed
  from copies part final show ?thesis
    by (intro exI [of _ "replicate n s"] exI [of _ st2]) simp
qed


theorem copies_then_destructions_witness:
  "\<exists>cs st2. make_copies 2 (fst (MySharedPtr_raw (Some 7) (init_state :: tagged_delete state)))
        (snd (MySharedPtr_raw (Some 7) (init_state :: tagged_delete state))) = Inr (cs, st2)
     \<and> length cs = 2
     \<and> (\<exists>st3. destroy_all (take 2 (fst (MySharedPtr_raw (Some 7) (init_state :: tagged_delete state)) # cs)) st2 = Inr st3
            \<and> deleted st3 = []
            \<and> use_count (fst (MySharedPtr_raw (Some 7) (init_state :: tagged_delete state))) st3 = Inr 1)
     \<and> (\<exists>st4. destroy_all (fst (MySharedPtr_raw (Some 7) (init_state :: tagged_delete state)) # cs) st2 = Inr st4
            \<and> deleted st4 = [(tagged_delete 0, Some 7)]
            \<and> heap st4 0 = None)"
proof -
  let ?s = "fst (MySharedPtr_raw (Some 7) (init_state :: tagged_delete state))"
  let ?st1 = "snd (MySharedPtr_raw (Some 7) (init_state :: tagged_delete state))"
  have "Suc 2 < (2::nat) ^ 64" by simp
  moreover have "MySharedPtr_raw (Some 7) (init_state :: tagged_delete state) = (?s, ?st1)" by simp
  ultimately obtain cs st2 where c: "make_copies 2 ?s ?st1 = Inr (cs, st2)" "length cs = 2"
    and k: "\<forall>k\<le>2. \<exists>st3. destroy_all (take k (?s # cs)) st2 = Inr st3
            \<and> deleted st3 = deleted (init_state :: tagged_delete state)
            \<and> (\<forall>c \<in> set (drop k (?s # cs)). use_count c st3 = Inr (of_nat (Suc 2 - k)))"
    and f: "\<exists>st4. destroy_all (?s # cs) st2 = Inr st4
            \<and> deleted st4 = deleted (init_state :: tagged_delete state) @ [(default, Some 7)]
            \<and> heap st4 (brk (init_state :: tagged_delete state)) = None"
    using copies_then_destructions [of 2 "Some 7" init_state ?s ?st1] by blast
  have cs: "cs = [?s, ?s]"
    using c(1) by (simp add: numeral_2_eq_2 MySharedPtr_copy_def call_cb_def
        MySharedPtr_raw_def new_ControlBlock_def init_state_def incrementStrongRef_def)
  from k obtain st3 where "destroy_all (take 2 (?s # cs)) st2 = Inr st3"
    "deleted st3 = deleted (init_state :: tagged_delete state)"
    "\<forall>c \<in> set (drop 2 (?s # cs)). use_count c st3 = Inr (of_nat (Suc 2 - 2))"
    by blast
  then have "\<exists>st3. destroy_all (take 2 (?s # cs)) st2 = Inr st3
            \<and> deleted st3 = [] \<and> use_count ?s st3 = Inr 1"
    by (simp add: cs init_state_def)
  moreover from f have "\<exists>st4. destroy_all (?s # cs) st2 = Inr st4
            \<and> deleted st4 = [(tagged_delete 0, Some 7)] \<and> heap st4 0 = None"
    by (simp add: init_state_def default_tagged_delete_def)
  ultimately show ?thesis using c by blast
qed

text \<open>
  C1 (the program departs from the claim). \<open>reset\<close> returns the pointer as it was:
  a pointer that had a control block still has it after \<open>reset()\<close>. Here \<open>a\<close> owns
  resource 7 and \<open>b\<close> is a copy. After \<open>a.reset()\<close> the pointer \<open>a\<close> is unchanged and
  \<open>b\<close> counts 1 owner; the destructor of \<open>a\<close> then decrements a second time, calls the
  policy on the resource and frees the block, and \<open>b\<close> is left with a dangling block.
\<close>

theorem reset_keeps_control_block:
  "(case MySharedPtr_raw (Some 7) (init_state :: tagged_delete state) of (a, st1) \<Rightarrow>
      bindE (MySharedPtr_copy a st1) (\<lambda>(b, st2).
      bindE (reset a st2) (\<lambda>(a', st3).
      bindE (MySharedPtr_destroy a' st3) (\<lambda>st4.
        Inr (a' = a, sp_cb a', use_count b st2, use_count b st3, deleted st3,
             deleted st4, heap st4 0, use_count b st4)))))
   = Inr (True, Some 0, Inr 2, Inr 1, [],
          [(tagged_delete 0, Some 7)], None, Inl UseAfterFree)"
  by (simp add: MySharedPtr_raw_def new_ControlBlock_def ControlBlock_new_def init_state_def
      MySharedPtr_copy_def call_cb_def incrementStrongRef_def reset_def use_count_def
      read_cb_def decrementStrongRef_def MySharedPtr_destroy_def default_tagged_delete_def)

text \<open>
  C5 (as stated, refuted). Two pointers that own different resources through different
  control blocks, each with one owner: neither is before the other, so the order is
  not trichotomous on distinct owners. After one more copy of the second pointer the
  first is before it: the answer follows the strong counts.
\<close>

theorem owner_before_counterexample:
  "(case MySharedPtr_raw (Some 10) (init_state :: tagged_delete state) of (a, st1) \<Rightarrow>
    case MySharedPtr_raw (Some 20) st1 of (b, st2) \<Rightarrow>
      (sp_cb a = sp_cb b, owner_before a b st2, owner_before b a st2,
       bindE (MySharedPtr_copy b st2) (\<lambda>(c, st3). owner_before a b st3)))
   = (False, Inr False, Inr False, Inr True)"
  by (simp add: MySharedPtr_raw_def new_ControlBlock_def ControlBlock_new_def init_state_def
      MySharedPtr_copy_def call_cb_def incrementStrongRef_def owner_before_def read_cb_def)

text \<open>
  C5 (amended). On two pointers whose control blocks are live, \<open>owner_before\<close> is the
  comparison of the two strong counts. In a given state it is therefore irreflexive,
  asymmetric and transitive, and two pointers that share a control block are never
  before one another.
\<close>

theorem owner_before_compares_strong_counts:
  assumes "sp_cb x = Some a" and "heap st a = Some b1"
    and "sp_cb y = Some c" and "heap st c = Some b2"
  shows "owner_before x y st = Inr (strong_ref b1 < strong_ref b2)
     \<and> owner_before x x st = Inr False
     \<and> (sp_cb x = sp_cb y \<longrightarrow> owner_before x y st = Inr False \<and> owner_before y x st = Inr False)
     \<and> (owner_before x y st = Inr True \<longrightarrow> owner_before y x st = Inr False)
     \<and> (\<forall>z. owner_before x y st = Inr True \<and> owner_before y z st = Inr True
            \<longrightarrow> owner_before x z st = Inr True)"
proof -
  have xy: "owner_before x y st = Inr (strong_ref b1 < strong_ref b2)"
    and yx: "owner_before y x st = Inr (strong_ref b2 < strong_ref b1)"
    and xx: "owner_before x x st = Inr False"
    using assms by (simp_all add: owner_before_def read_cb_def)
  have same: "owner_before x y st = Inr False \<and> owner_before y x st = Inr False"
    if "sp_cb x = sp_cb y"
    using that assms by (simp add: xy yx)
  have trans: "owner_before x z st = Inr True"
    if "owner_before x y st = Inr True" and "owner_before y z st = Inr True" for z
    using that assms
    by (auto simp add: owner_before_def read_cb_def split: option.splits if_splits)
  from xy yx xx same trans show ?thesis by auto
qed

theorem owner_before_compares_strong_counts_witness:
  "owner_before \<lparr>sp_cb = Some 0, sp_ptr = Some 10\<rparr> \<lparr>sp_cb = Some 1, sp_ptr = Some 20\<rparr>
     \<lparr>heap = (\<lambda>_. None)(0 \<mapsto> \<lparr>strong_ref = 1, weak_ref = 0, cb_deleter = tagged_delete 0\<rparr>,
                         1 \<mapsto> \<lparr>strong_ref = 2, weak_ref = 0, cb_deleter = tagged_delete 0\<rparr>),
      deleted = [], brk = 2\<rparr> = Inr True
   \<and> owner_before \<lparr>sp_cb = Some 1, sp_ptr = Some 20\<rparr> \<lparr>sp_cb = Some 0, sp_ptr = Some 10\<rparr>
     \<lparr>heap = (\<lambda>_. None)(0 \<mapsto> \<lparr>strong_ref = 1, weak_ref = 0, cb_deleter = tagged_delete 0\<rparr>,
                         1 \<mapsto> \<lparr>strong_ref = 2, weak_ref = 0, cb_deleter = tagged_delete 0\<rparr>),
      deleted = [], brk = 2\<rparr> = Inr False"
  using owner_before_compares_strong_counts
    [of "\<lparr>sp_cb = Some 0, sp_ptr = Some 10\<rparr>" 0
        "\<lparr>heap = (\<lambda>_. None)(0 \<mapsto> \<lparr>strong_ref = 1, weak_ref = 0, cb_deleter = tagged_delete 0\<rparr>,
                         1 \<mapsto> \<lparr>strong_ref = 2, weak_ref = 0, cb_deleter = tagged_delete 0\<rparr>),
          deleted = [], brk = 2\<rparr>"
        "\<lparr>strong_ref = 1, weak_ref = 0, cb_deleter = tagged_delete 0\<rparr>"
        "\<lparr>sp_cb = Some 1, sp_ptr = Some 20\<rparr>" 1
        "\<lparr>strong_ref = 2, weak_ref = 0, cb_deleter = tagged_delete 0\<rparr>"]
  by simp

subsection \<open>The weak pointer\<close>

text \<open>
  C9. On an empty (default-constructed) weak pointer, \<open>expired\<close>, the conversion to
  \<open>bool\<close>, \<open>reset\<close> and the destructor all call a member of the control block through
  \<open>nullptr\<close>; \<open>use_count\<close> tests the control-block pointer first and returns 0.
\<close>

theorem empty_weak_ptr_null_dereference:
  "expired MyWeakPtr_default st = Inl NullDeref
   \<and> weak_bool MyWeakPtr_default st = Inl NullDeref
   \<and> weak_reset MyWeakPtr_default st = Inl NullDeref
   \<and> MyWeakPtr_destroy MyWeakPtr_default st = Inl NullDeref
   \<and> weak_use_count MyWeakPtr_default st = Inr 0"
  by (simp add: expired_def weak_bool_def weak_reset_def MyWeakPtr_destroy_def
      weak_use_count_def MyWeakPtr_default_def read_cb_def call_cb_def)

text \<open>
  C6 (the program departs from the claim). The copy constructor increments the weak
  count of the source's block. Copy assignment increments before it reassigns, so it
  counts on the block the destination observed before. Here \<open>w1\<close> observes the block
  of \<open>s1\<close> and \<open>w2\<close> the block of \<open>s2\<close>; after \<open>w2 = w1\<close> the pointer \<open>w2\<close> refers to
  the block of \<open>s1\<close>, whose weak count is still 1, while the weak count of the block of
  \<open>s2\<close> went from 1 to 2. Assigning to a default-constructed weak pointer calls through
  \<open>nullptr\<close>.
\<close>

theorem weak_assign_counts_on_old_block:
  "(case MySharedPtr_raw (Some 10) (init_state :: tagged_delete state) of (s1, st1) \<Rightarrow>
    case MySharedPtr_raw (Some 20) st1 of (s2, st2) \<Rightarrow>
      bindE (MyWeakPtr_shared s1 st2) (\<lambda>(w1, st3).
      bindE (MyWeakPtr_shared s2 st3) (\<lambda>(w2, st4).
      bindE (MyWeakPtr_assign False w2 w1 st4) (\<lambda>(w2', st5).
        Inr (wp_cb w1, wp_cb w2, wp_cb w2',
             read_cb (wp_cb w1) weak_ref st4, read_cb (wp_cb w1) weak_ref st5,
             read_cb (wp_cb w2) weak_ref st4, read_cb (wp_cb w2) weak_ref st5,
             bindE (MyWeakPtr_copy w1 st4) (\<lambda>(w3, st6). read_cb (wp_cb w1) weak_ref st6),
             bindE (MyWeakPtr_assign False MyWeakPtr_default w1 st4) (\<lambda>(w4, st7). Inr (wp_cb w4)))))))
   = Inr (Some 0, Some 1, Some 0, Inr 1, Inr 1, Inr 1, Inr 2, Inr 2, Inl NullDeref)"
  by (simp add: MySharedPtr_raw_def new_ControlBlock_def ControlBlock_new_def init_state_def
      MyWeakPtr_shared_def MyWeakPtr_copy_def MyWeakPtr_assign_def MyWeakPtr_default_def
      call_cb_def read_cb_def incrementWeakRef_def get_def getCB_def)

text \<open>
  C4 (the program departs from the claim). \<open>lock\<close> needs a shared pointer made from
  the weak pointer itself, which no constructor of MySharedPtr provides, so no call of
  \<open>lock\<close> yields a pointer. Here \<open>w\<close> observes the block of \<open>s\<close>: while \<open>s\<close>
  lives, \<open>w\<close> is not expired, \<open>lock\<close> returns no pointer sharing the block and the
  use count stays 1; after \<open>s\<close> is destroyed \<open>w\<close> is expired and \<open>lock\<close> returns
  no empty pointer either.
\<close>

theorem lock_has_no_matching_constructor:
  "(case MySharedPtr_raw (Some 7) (init_state :: tagged_delete state) of (s, st1) \<Rightarrow>
      bindE (MyWeakPtr_shared s st1) (\<lambda>(w, st2).
      bindE (MySharedPtr_destroy s st2) (\<lambda>st3.
        Inr (expired w st2, lock w st2, use_count s st2, expired w st3, lock w st3))))
   = Inr (Inr False, Inl NoMatchingConstructor, Inr 1, Inr True, Inl NoMatchingConstructor)"
  by (simp add: MySharedPtr_raw_def new_ControlBlock_def ControlBlock_new_def init_state_def
      MyWeakPtr_shared_def call_cb_def read_cb_def incrementWeakRef_def get_def getCB_def
      MySharedPtr_destroy_def reset_def use_count_def decrementStrongRef_def expired_def
      lock_def)

subsection \<open>The control block and the pointers that refer to it\<close>










































end
